theory Spec2Isabelle
  imports Complex_Main "HOL-Library.Sublist"
begin

section \<open>Telugu text classification service (Backend/app.py)\<close>

text \<open>
  A shallow embedding of the request handlers of \<^verbatim>\<open>Backend/app.py\<close>.

  \<^item> A Python \<^verbatim>\<open>str\<close> is the list of its Unicode code points. ASCII literals of the
    source are written \<open>ascii ''...''\<close>; the Telugu literals are written out as code points.
    The keys of the global \<^verbatim>\<open>models\<close> dictionary are identifiers of the program and
    are kept as HOL strings.
  \<^item> A Python \<^verbatim>\<open>float\<close> is a real number: rounding of IEEE doubles is not modelled.
  \<^item> The objects that \<^verbatim>\<open>joblib.load\<close> returns are opaque to the program. They are
    given by what the program can do with them: call \<^verbatim>\<open>transform\<close>, read
    \<^verbatim>\<open>classes_\<close>, call \<^verbatim>\<open>predict_proba\<close>, use the object as an array, or call it.
    A call into such an object either returns or raises; a raised exception is the
    \<open>Inl\<close> of a sum, carrying the exception's message.
  \<^item> Arrays are one-dimensional.
  \<^item> \<^verbatim>\<open>str.lower\<close> is a parameter of the model (\<open>lower\<close>): the Unicode case tables
    are not part of the program.
\<close>

subsection \<open>Strings\<close>

type_synonym str = "nat list"

definition ascii :: "string \<Rightarrow> str" where
  "ascii s = map of_char s"

text \<open>The characters that \<^verbatim>\<open>str.strip()\<close> removes (those for which
  \<^verbatim>\<open>str.isspace\<close> holds).\<close>

definition isspace :: "nat \<Rightarrow> bool" where
  "isspace c \<longleftrightarrow>
     (0x09 \<le> c \<and> c \<le> 0x0D) \<or> (0x1C \<le> c \<and> c \<le> 0x20) \<or> c = 0x85 \<or> c = 0xA0 \<or>
     c = 0x1680 \<or> (0x2000 \<le> c \<and> c \<le> 0x200A) \<or> c = 0x2028 \<or> c = 0x2029 \<or>
     c = 0x202F \<or> c = 0x205F \<or> c = 0x3000"

definition strip :: "str \<Rightarrow> str" where
  "strip s = rev (dropWhile isspace (rev (dropWhile isspace s)))"

text \<open>\<^verbatim>\<open>word in text\<close> on strings: \<open>word\<close> occurs in \<open>text\<close> as a contiguous run.\<close>

fun startswith :: "str \<Rightarrow> str \<Rightarrow> bool" where
  "startswith t [] = True"
| "startswith [] (w # ws) = False"
| "startswith (c # cs) (w # ws) = (c = w \<and> startswith cs ws)"

fun contains :: "str \<Rightarrow> str \<Rightarrow> bool" where
  "contains word [] = (word = [])"
| "contains word (c # cs) = (startswith (c # cs) word \<or> contains word cs)"

text \<open>\<^verbatim>\<open>any(word in text for word in words)\<close>\<close>

definition any_in :: "str list \<Rightarrow> str \<Rightarrow> bool" where
  "any_in words text = list_ex (\<lambda>word. contains word text) words"

subsection \<open>Exceptions, effects and loaded objects\<close>

datatype exn =
    HTTPException nat str  \<comment> \<open>status code and detail\<close>
  | Error str  \<comment> \<open>any other exception, with its message\<close>

datatype event =
    Transform str  \<comment> \<open>the vectorizer's \<^verbatim>\<open>transform\<close> was called on this text\<close>
  | Print str
  | PrintTraceback

type_synonym text_vector = "real list"

text \<open>What a per-model prediction can be: a numpy array, an object that is not a numpy
  array but has a \<^verbatim>\<open>shape\<close> (and that numpy reads as the given values), or
  anything else.\<close>

datatype pyval =
    NdArray "real list"
  | ArrayLike "real list"
  | Opaque

datatype pyobj =
    Vectorizer "str \<Rightarrow> str + text_vector"  \<comment> \<open>has \<^verbatim>\<open>transform\<close>\<close>
  | LabelEncoder "str list"  \<comment> \<open>has \<^verbatim>\<open>classes_\<close>\<close>
  | Predictor "text_vector \<Rightarrow> str + pyval"
      \<comment> \<open>has \<^verbatim>\<open>predict_proba\<close>; the function gives \<^verbatim>\<open>predict_proba(v)[0]\<close>\<close>
  | Array "real list"  \<comment> \<open>a \<^verbatim>\<open>numpy.ndarray\<close>\<close>
  | Callable "text_vector \<Rightarrow> str + pyval"
      \<comment> \<open>no \<^verbatim>\<open>predict_proba\<close>, not an array, callable\<close>
  | Inert  \<comment> \<open>none of the above\<close>

type_synonym registry = "string \<rightharpoonup> pyobj"

subsection \<open>The category table\<close>

record names =
  telugu :: str
  english :: str

definition CATEGORIES :: "(str \<times> names) list" where
  "CATEGORIES =
    [(ascii ''business'',
        \<lparr>telugu = [0xC35, 0xC4D, 0xC2F, 0xC3E, 0xC2A, 0xC3E, 0xC30, 0xC02],
         english = ascii ''Business''\<rparr>),
     (ascii ''editorial'',
        \<lparr>telugu = [0xC38, 0xC02, 0xC2A, 0xC3E, 0xC26, 0xC15, 0xC40, 0xC2F, 0xC02],
         english = ascii ''Editorial''\<rparr>),
     (ascii ''entertainment'',
        \<lparr>telugu = [0xC35, 0xC3F, 0xC28, 0xC4B, 0xC26, 0xC02],
         english = ascii ''Entertainment''\<rparr>),
     (ascii ''nation'',
        \<lparr>telugu = [0xC1C, 0xC3E, 0xC24, 0xC40, 0xC2F, 0xC02],
         english = ascii ''Nation''\<rparr>),
     (ascii ''sports'',
        \<lparr>telugu = [0xC15, 0xC4D, 0xC30, 0xC40, 0xC21, 0xC32, 0xC41],
         english = ascii ''Sports''\<rparr>)]"

text \<open>The five category codes, in the order of the table.\<close>

definition five_classes :: "str list" where
  "five_classes = map ascii [''business'', ''editorial'', ''entertainment'', ''nation'', ''sports'']"

subsection \<open>Startup: \<^verbatim>\<open>load_models\<close>\<close>

text \<open>\<^verbatim>\<open>joblib.load\<close> is the parameter \<open>load\<close>. The five loads run in order inside one
  \<^verbatim>\<open>try\<close>: the first that raises ends the loading and leaves what was stored.\<close>

fun load_each :: "(string \<Rightarrow> str + pyobj) \<Rightarrow> (string \<times> string) list \<Rightarrow> registry \<Rightarrow> registry" where
  "load_each load [] models = models"
| "load_each load ((name, path) # rest) models =
     (case load path of
        Inl e \<Rightarrow> models
      | Inr obj \<Rightarrow> load_each load rest (models(name \<mapsto> obj)))"

definition load_models :: "(string \<Rightarrow> str + pyobj) \<Rightarrow> registry" where
  "load_models load =
     load_each load
       [(''vectorizer'', ''models/tfidf_vectorizer.pkl''),
        (''label_encoder'', ''models/label_encoder.pkl''),
        (''muril'', ''models/muril_model.pkl''),
        (''bilstm'', ''models/bilstm_model.pkl''),
        (''lgb'', ''models/lgb_model.pkl'')]
       Map.empty"

subsection \<open>\<^verbatim>\<open>GET /\<close> and \<^verbatim>\<open>GET /health\<close>\<close>

record health_response =
  status :: string
  models_loaded :: bool

record root_response = health_response +
  message :: string

text \<open>\<^verbatim>\<open>len(models)\<close>\<close>

definition len_dict :: "('k \<rightharpoonup> 'v) \<Rightarrow> nat" where
  "len_dict d = card (dom d)"

definition root_get :: "registry \<Rightarrow> root_response" where
  "root_get models =
     \<lparr>status = ''active'', models_loaded = (len_dict models \<ge> 2),
      message = ''Telugu Text Classification API''\<rparr>"

definition health_check :: "registry \<Rightarrow> health_response" where
  "health_check models = \<lparr>status = ''healthy'', models_loaded = (len_dict models \<ge> 2)\<rparr>"

subsection \<open>\<^verbatim>\<open>get_predictions\<close>\<close>

text \<open>\<^verbatim>\<open>obj.classes_\<close> and \<^verbatim>\<open>obj.transform([text])\<close>: an object without the
  attribute raises.\<close>

definition classes_of :: "pyobj \<Rightarrow> exn + str list" where
  "classes_of obj = (case obj of LabelEncoder cl \<Rightarrow> Inr cl | _ \<Rightarrow> Inl (Error (ascii ''AttributeError'')))"

definition lookup :: "registry \<Rightarrow> string \<Rightarrow> exn + pyobj" where
  "lookup models key = (case models key of None \<Rightarrow> Inl (Error (ascii ''KeyError'')) | Some obj \<Rightarrow> Inr obj)"

text \<open>\<^verbatim>\<open>np.ones(num_classes) / num_classes\<close>\<close>

definition uniform :: "nat \<Rightarrow> real list" where
  "uniform num_classes = map (\<lambda>x. x / real num_classes) (replicate num_classes 1)"

definition default_uniform :: "registry \<Rightarrow> exn + pyval" where
  "default_uniform models =
     (case lookup models ''label_encoder'' of
        Inl e \<Rightarrow> Inl e
      | Inr enc \<Rightarrow>
          (case classes_of enc of
             Inl e \<Rightarrow> Inl e
           | Inr cl \<Rightarrow> Inr (NdArray (uniform (length cl)))))"

text \<open>\<^verbatim>\<open>hasattr(model, 'predict_proba')\<close>, \<^verbatim>\<open>isinstance(model, np.ndarray)\<close>,
  \<^verbatim>\<open>model.predict_proba(text_vector)[0]\<close> and \<^verbatim>\<open>model(text_vector)\<close>. Calling an
  object that is not callable raises.\<close>

definition has_predict_proba :: "pyobj \<Rightarrow> bool" where
  "has_predict_proba model = (case model of Predictor f \<Rightarrow> True | _ \<Rightarrow> False)"

definition is_ndarray :: "pyobj \<Rightarrow> bool" where
  "is_ndarray model = (case model of Array a \<Rightarrow> True | _ \<Rightarrow> False)"

definition raised :: "str + 'a \<Rightarrow> exn + 'a" where
  "raised r = (case r of Inl msg \<Rightarrow> Inl (Error msg) | Inr x \<Rightarrow> Inr x)"

definition predict_proba :: "pyobj \<Rightarrow> text_vector \<Rightarrow> exn + pyval" where
  "predict_proba model text_vector =
     (case model of
        Predictor f \<Rightarrow> raised (f text_vector)
      | _ \<Rightarrow> Inl (Error (ascii ''AttributeError'')))"

definition call :: "pyobj \<Rightarrow> text_vector \<Rightarrow> exn + pyval" where
  "call model text_vector =
     (case model of
        Callable f \<Rightarrow> raised (f text_vector)
      | _ \<Rightarrow> Inl (Error (ascii ''TypeError'')))"

text \<open>An object seen as a prediction (\<^verbatim>\<open>return model\<close>).\<close>

definition as_value :: "pyobj \<Rightarrow> pyval" where
  "as_value model = (case model of Array a \<Rightarrow> NdArray a | _ \<Rightarrow> Opaque)"

definition get_predictions :: "registry \<Rightarrow> pyobj \<Rightarrow> text_vector \<Rightarrow> exn + pyval" where
  "get_predictions models model text_vector =
     (if has_predict_proba model then predict_proba model text_vector
      else if is_ndarray model then Inr (as_value model)
      else
        (case call model text_vector of
           Inr p \<Rightarrow> Inr p
         | Inl e \<Rightarrow> default_uniform models))"

subsection \<open>\<^verbatim>\<open>classify_text\<close>: collecting the per-model predictions\<close>

text \<open>The body of the loop over the model names: the state is \<^verbatim>\<open>all_predictions\<close> and
  what was printed.\<close>

definition try_model ::
  "registry \<Rightarrow> text_vector \<Rightarrow> nat \<Rightarrow> string \<Rightarrow> real list list \<times> event list \<Rightarrow> real list list \<times> event list"
where
  "try_model models text_vector num_classes model_name st =
     (case st of (all_predictions, out) \<Rightarrow>
        (case models model_name of
           None \<Rightarrow> (all_predictions, out)
         | Some model \<Rightarrow>
             (case get_predictions models model text_vector of
                Inl e \<Rightarrow>
                  (all_predictions,
                   out @ [Print (ascii ''Error with '' @ ascii model_name @ ascii '': '' @
                            (case e of Error msg \<Rightarrow> msg | HTTPException c d \<Rightarrow> d))])
              | Inr (NdArray pred) \<Rightarrow>
                  if length pred = num_classes then (all_predictions @ [pred], out)
                  else (all_predictions, out)
              | Inr (ArrayLike pred) \<Rightarrow>
                  if length pred = num_classes then (all_predictions @ [pred], out)
                  else (all_predictions, out)
              | Inr Opaque \<Rightarrow> (all_predictions, out))))"

definition collect_predictions ::
  "registry \<Rightarrow> text_vector \<Rightarrow> nat \<Rightarrow> real list list \<times> event list"
where
  "collect_predictions models text_vector num_classes =
     fold (try_model models text_vector num_classes) [''muril'', ''bilstm'', ''lgb''] ([], [])"

subsection \<open>The keyword fallback\<close>

definition sports_words :: "str list" where
  "sports_words =
     [[0xC15, 0xC4D, 0xC30, 0xC40, 0xC21],
      [0xC1C, 0xC1F, 0xC4D, 0xC1F, 0xC41],
      [0xC17, 0xC46, 0xC32, 0xC3F, 0xC1A],
      [0xC06, 0xC21],
      [0xC2E, 0xC4D, 0xC2F, 0xC3E, 0xC1A, 0xC4D]]"

definition entertainment_words :: "str list" where
  "entertainment_words =
     [[0xC38, 0xC3F, 0xC28, 0xC3F, 0xC2E, 0xC3E],
      [0xC28, 0xC1F, 0xC41, 0xC21, 0xC41],
      [0xC28, 0xC1F, 0xC3F],
      [0xC1A, 0xC3F, 0xC24, 0xC4D, 0xC30, 0xC02],
      [0xC35, 0xC3F, 0xC28, 0xC4B, 0xC26]]"

definition business_words :: "str list" where
  "business_words =
     [[0xC35, 0xC4D, 0xC2F, 0xC3E, 0xC2A, 0xC3E, 0xC30],
      [0xC2C, 0xC3F, 0xC1C, 0xC3F, 0xC28, 0xC46, 0xC38, 0xC4D],
      [0xC15, 0xC02, 0xC2A, 0xC46, 0xC28, 0xC40],
      [0xC2E, 0xC3E, 0xC30, 0xC4D, 0xC15, 0xC46, 0xC1F, 0xC4D]]"

definition editorial_words :: "str list" where
  "editorial_words =
     [[0xC38, 0xC02, 0xC2A, 0xC3E, 0xC26, 0xC15],
      [0xC05, 0xC2D, 0xC3F, 0xC2A, 0xC4D, 0xC30, 0xC3E, 0xC2F]]"

text \<open>The chain of \<^verbatim>\<open>if\<close>/\<^verbatim>\<open>elif\<close> on \<^verbatim>\<open>text_lower\<close>: the category and its
  confidence.\<close>

definition keyword_match :: "str \<Rightarrow> str \<times> real" where
  "keyword_match text_lower =
     (if any_in sports_words text_lower then (ascii ''sports'', 0.85)
      else if any_in entertainment_words text_lower then (ascii ''entertainment'', 0.80)
      else if any_in business_words text_lower then (ascii ''business'', 0.75)
      else if any_in editorial_words text_lower then (ascii ''editorial'', 0.70)
      else (ascii ''nation'', 0.65))"

definition fallback :: "(str \<Rightarrow> str) \<Rightarrow> str \<Rightarrow> str \<times> real \<times> (str \<rightharpoonup> real)" where
  "fallback lower text =
     (case keyword_match (lower text) of (category, confidence) \<Rightarrow>
        (category, confidence,
         (map_of (map (\<lambda>cat. (cat, 0.05)) (map fst CATEGORIES)))(category \<mapsto> confidence)))"

subsection \<open>The ensemble\<close>

text \<open>\<^verbatim>\<open>np.mean(all_predictions, axis=0)\<close> on a list of arrays: numpy raises on rows of
  different lengths. The handler calls it on a non-empty list only. numpy rounds every sum
  and the quotient to a double; the model computes the exact mean, so a value computed here
  can differ from numpy's in the last digits.\<close>

definition mean_axis0 :: "real list list \<Rightarrow> exn + real list" where
  "mean_axis0 rows =
     (case rows of
        [] \<Rightarrow> Inl (Error (ascii ''empty''))
      | r # _ \<Rightarrow>
          if list_all (\<lambda>q. length q = length r) rows
          then Inr (map (\<lambda>i. sum_list (map (\<lambda>q. q ! i) rows) / real (length rows)) [0..<length r])
          else Inl (Error (ascii ''ValueError'')))"

text \<open>\<^verbatim>\<open>np.argmax\<close>: the index of the first occurrence of the maximum; raises on an
  empty array.\<close>

fun argmax_from :: "nat \<Rightarrow> real \<Rightarrow> nat \<Rightarrow> real list \<Rightarrow> nat" where
  "argmax_from best bestv i [] = best"
| "argmax_from best bestv i (x # xs) =
     (if x > bestv then argmax_from i x (Suc i) xs else argmax_from best bestv (Suc i) xs)"

definition argmax :: "real list \<Rightarrow> exn + nat" where
  "argmax xs = (case xs of [] \<Rightarrow> Inl (Error (ascii ''ValueError'')) | x # rest \<Rightarrow> Inr (argmax_from 0 x 1 rest))"

text \<open>\<^verbatim>\<open>label_encoder.inverse_transform([idx])[0]\<close>\<close>

definition inverse_transform :: "str list \<Rightarrow> nat \<Rightarrow> exn + str" where
  "inverse_transform cl idx =
     (if idx < length cl then Inr (cl ! idx) else Inl (Error (ascii ''ValueError'')))"

definition ensemble :: "str list \<Rightarrow> real list list \<Rightarrow> exn + str \<times> real \<times> (str \<rightharpoonup> real)" where
  "ensemble category_list all_predictions =
     (case mean_axis0 all_predictions of
        Inl e \<Rightarrow> Inl e
      | Inr ensemble_probs \<Rightarrow>
          (case argmax ensemble_probs of
             Inl e \<Rightarrow> Inl e
           | Inr predicted_idx \<Rightarrow>
               (case inverse_transform category_list predicted_idx of
                  Inl e \<Rightarrow> Inl e
                | Inr category \<Rightarrow>
                    Inr (category, ensemble_probs ! predicted_idx,
                         Map.empty(category_list [\<mapsto>] ensemble_probs)))))"

subsection \<open>The handler of \<^verbatim>\<open>POST /classify\<close>\<close>

record ClassificationResult =
  category_english :: str
  category_telugu :: str
  confidence :: real
  all_probabilities :: "str \<rightharpoonup> real"

text \<open>\<^verbatim>\<open>CATEGORIES.get(category, {'english': category, 'telugu': category})\<close> and the
  result built from it.\<close>

definition category_info :: "str \<Rightarrow> names" where
  "category_info category =
     (case map_of CATEGORIES category of
        Some info \<Rightarrow> info
      | None \<Rightarrow> \<lparr>telugu = category, english = category\<rparr>)"

definition decorate :: "str \<times> real \<times> (str \<rightharpoonup> real) \<Rightarrow> ClassificationResult" where
  "decorate p =
     (case p of (category, conf, all_probs) \<Rightarrow>
        \<lparr>category_english = english (category_info category),
         category_telugu = telugu (category_info category),
         confidence = conf,
         all_probabilities = all_probs\<rparr>)"

definition transform :: "pyobj \<Rightarrow> str \<Rightarrow> (exn + text_vector) \<times> event list" where
  "transform obj text =
     (case obj of
        Vectorizer f \<Rightarrow>
          (raised (f text), [Transform text])
      | _ \<Rightarrow> (Inl (Error (ascii ''AttributeError'')), []))"

text \<open>The category, confidence and probabilities computed between the two checks and the
  construction of the result (everything after \<^verbatim>\<open>text_vector\<close> is known).\<close>

definition predict ::
  "(str \<Rightarrow> str) \<Rightarrow> registry \<Rightarrow> str \<Rightarrow> text_vector \<Rightarrow> (exn + str \<times> real \<times> (str \<rightharpoonup> real)) \<times> event list"
where
  "predict lower models text text_vector =
     (case lookup models ''label_encoder'' of
        Inl e \<Rightarrow> (Inl e, [])
      | Inr enc \<Rightarrow>
          (case classes_of enc of
             Inl e \<Rightarrow> (Inl e, [])
           | Inr cl \<Rightarrow>
               (case collect_predictions models text_vector (length cl) of
                  (all_predictions, out) \<Rightarrow>
                    if length all_predictions = 0 then (Inr (fallback lower text), out)
                    else (ensemble cl all_predictions, out))))"

text \<open>The body of the outer \<^verbatim>\<open>try\<close>.\<close>

definition classify_body ::
  "(str \<Rightarrow> str) \<Rightarrow> registry \<Rightarrow> str \<Rightarrow> (exn + ClassificationResult) \<times> event list"
where
  "classify_body lower models input_text =
     (if models ''vectorizer'' = None \<or> models ''label_encoder'' = None
      then (Inl (HTTPException 503 (ascii ''Models not loaded'')), [])
      else
        (let text = strip input_text in
         if text = [] then (Inl (HTTPException 400 (ascii ''Text cannot be empty'')), [])
         else
           (case lookup models ''vectorizer'' of
              Inl e \<Rightarrow> (Inl e, [])
            | Inr vec \<Rightarrow>
                (case transform vec text of
                   (Inl e, out) \<Rightarrow> (Inl e, out)
                 | (Inr text_vector, out) \<Rightarrow>
                     (case predict lower models text text_vector of
                        (Inl e, out') \<Rightarrow> (Inl e, out @ out')
                      | (Inr p, out') \<Rightarrow> (Inr (decorate p), out @ out'))))))"

text \<open>The two \<^verbatim>\<open>except\<close> clauses: an \<^verbatim>\<open>HTTPException\<close> passes, anything else is
  printed and becomes a 500.\<close>

definition classify_text ::
  "(str \<Rightarrow> str) \<Rightarrow> registry \<Rightarrow> str \<Rightarrow> (exn + ClassificationResult) \<times> event list"
where
  "classify_text lower models input_text =
     (case classify_body lower models input_text of
        (Inl (Error msg), out) \<Rightarrow>
          (Inl (HTTPException 500 (ascii ''Error: '' @ msg)),
           out @ [Print (ascii ''Full error: '' @ msg), PrintTraceback])
      | r \<Rightarrow> r)"

text \<open>The status code of the HTTP response.\<close>

fun status_code :: "exn + 'a \<Rightarrow> nat" where
  "status_code (Inr r) = 200"
| "status_code (Inl (HTTPException code detail)) = code"
| "status_code (Inl (Error msg)) = 500"

subsection \<open>What one model adds to \<^verbatim>\<open>all_predictions\<close>\<close>

definition contribution :: "registry \<Rightarrow> text_vector \<Rightarrow> nat \<Rightarrow> string \<Rightarrow> real list list" where
  "contribution models v n name = fst (try_model models v n name ([], []))"

subsection \<open>The first dimension of a prediction\<close>

text \<open>\<^verbatim>\<open>len(pred)\<close> of an array, \<^verbatim>\<open>pred.shape[0]\<close> of an object with a shape.\<close>

definition shape0 :: "pyval \<Rightarrow> nat option" where
  "shape0 p = (case p of NdArray xs \<Rightarrow> Some (length xs) | ArrayLike xs \<Rightarrow> Some (length xs) | Opaque \<Rightarrow> None)"

subsection \<open>Example objects\<close>

text \<open>Where an example averages two vectors, their entries are binary fractions, for which
  the sums and quotients of doubles are exact.\<close>

text \<open>Lower-casing of the ASCII letters, as an instance of \<open>lower\<close>.\<close>

definition ascii_lower :: "str \<Rightarrow> str" where
  "ascii_lower s = map (\<lambda>c. if 0x41 \<le> c \<and> c \<le> 0x5A then c + 0x20 else c) s"

definition example_vectorizer :: pyobj where
  "example_vectorizer = Vectorizer (\<lambda>text. Inr [real (length text)])"

definition failing_callable :: pyobj where
  "failing_callable = Callable (\<lambda>v. Inl (ascii ''boom''))"

definition ready_registry :: registry where
  "ready_registry =
     [''vectorizer'' \<mapsto> example_vectorizer, ''label_encoder'' \<mapsto> LabelEncoder five_classes]"

definition failing_registry :: registry where
  "failing_registry = ready_registry(''muril'' \<mapsto> failing_callable)"

definition raising_predictor :: pyobj where
  "raising_predictor = Predictor (\<lambda>v. Inl (ascii ''boom''))"

definition short_array :: pyobj where
  "short_array = Array [1/2, 1/2]"

definition skipping_registry :: registry where
  "skipping_registry = ready_registry(''muril'' \<mapsto> raising_predictor, ''bilstm'' \<mapsto> short_array,
      ''lgb'' \<mapsto> Array [1/10, 1/10, 1/10, 1/10, 6/10])"

definition two_model_registry :: registry where
  "two_model_registry = ready_registry(
      ''muril'' \<mapsto> Array [0.125, 0.125, 0.125, 0.125, 0.5],
      ''lgb'' \<mapsto> Predictor (\<lambda>v. Inr (NdArray [0.25, 0.25, 0.25, 0.25, 0.25])))"

definition two_model_result :: ClassificationResult where
  "two_model_result =
     \<lparr>category_english = ascii ''Sports'',
      category_telugu = [0xC15, 0xC4D, 0xC30, 0xC40, 0xC21, 0xC32, 0xC41],
      confidence = 0.375,
      all_probabilities = Map.empty(five_classes [\<mapsto>] [0.1875, 0.1875, 0.1875, 0.1875, 0.375])\<rparr>"

definition uniform_result :: ClassificationResult where
  "uniform_result =
     \<lparr>category_english = ascii ''Business'',
      category_telugu = [0xC35, 0xC4D, 0xC2F, 0xC3E, 0xC2A, 0xC3E, 0xC30, 0xC02],
      confidence = 1 / 5,
      all_probabilities = Map.empty(five_classes [\<mapsto>] [1 / 5, 1 / 5, 1 / 5, 1 / 5, 1 / 5])\<rparr>"

definition unchecked_registry :: registry where
  "unchecked_registry =
     [''vectorizer'' \<mapsto> example_vectorizer,
      ''label_encoder'' \<mapsto> LabelEncoder [ascii ''politics'', ascii ''sports''],
      ''muril'' \<mapsto> Array [3, - 1]]"

definition unchecked_result :: ClassificationResult where
  "unchecked_result =
     \<lparr>category_english = ascii ''politics'',
      category_telugu = ascii ''politics'',
      confidence = 3,
      all_probabilities = [ascii ''politics'' \<mapsto> 3, ascii ''sports'' \<mapsto> - 1]\<rparr>"

definition sports_result :: ClassificationResult where
  "sports_result =
     \<lparr>category_english = ascii ''Sports'',
      category_telugu = [0xC15, 0xC4D, 0xC30, 0xC40, 0xC21, 0xC32, 0xC41],
      confidence = 0.85,
      all_probabilities =
        [ascii ''business'' \<mapsto> 0.05, ascii ''editorial'' \<mapsto> 0.05,
         ascii ''entertainment'' \<mapsto> 0.05, ascii ''nation'' \<mapsto> 0.05, ascii ''sports'' \<mapsto> 0.85]\<rparr>"

definition four_classes :: "str list" where
  "four_classes = map ascii [''business'', ''editorial'', ''nation'', ''sports'']"

definition mixed_registry :: registry where
  "mixed_registry =
     [''vectorizer'' \<mapsto> example_vectorizer,
      ''label_encoder'' \<mapsto> LabelEncoder four_classes,
      ''muril'' \<mapsto> Array [0.5, 0.25, 0.25, 0],
      ''lgb'' \<mapsto> failing_callable]"

definition mixed_result :: ClassificationResult where
  "mixed_result =
     \<lparr>category_english = ascii ''Business'',
      category_telugu = [0xC35, 0xC4D, 0xC2F, 0xC3E, 0xC2A, 0xC3E, 0xC30, 0xC02],
      confidence = 0.375,
      all_probabilities = Map.empty(four_classes [\<mapsto>] [0.375, 0.25, 0.25, 0.125])\<rparr>"

section \<open>Properties\<close>

subsection \<open>Strings\<close>

lemma ascii_eq_iff [simp]: "ascii s = ascii t \<longleftrightarrow> s = t"
  unfolding ascii_def by (simp add: inj_map_eq_map inj_on_def)

lemma strip_blank: "list_all isspace s \<Longrightarrow> strip s = []"
  by (simp add: strip_def list_all_iff dropWhile_eq_Nil_conv)
    (meson set_dropWhileD)

lemma strip_Nil_iff: "strip s = [] \<longleftrightarrow> list_all isspace s"
proof
  assume "strip s = []"
  then have all: "\<forall>x\<in>set (dropWhile isspace s). isspace x"
    by (simp add: strip_def dropWhile_eq_Nil_conv)
  have "dropWhile isspace s = []"
  proof (rule ccontr)
    assume ne: "dropWhile isspace s \<noteq> []"
    then have "\<not> isspace (hd (dropWhile isspace s))" by (rule hd_dropWhile)
    moreover have "hd (dropWhile isspace s) \<in> set (dropWhile isspace s)" using ne by simp
    ultimately show False using all by blast
  qed
  then show "list_all isspace s" by (simp add: dropWhile_eq_Nil_conv list_all_iff)
next
  assume "list_all isspace s" then show "strip s = []" by (rule strip_blank)
qed

subsection \<open>The readiness check and the empty-text check\<close>

lemma classify_body_not_ready:
  "models ''vectorizer'' = None \<or> models ''label_encoder'' = None \<Longrightarrow>
   classify_body lower models input_text = (Inl (HTTPException 503 (ascii ''Models not loaded'')), [])"
  by (simp add: classify_body_def)

lemma classify_text_not_ready:
  "models ''vectorizer'' = None \<or> models ''label_encoder'' = None \<Longrightarrow>
   classify_text lower models input_text = (Inl (HTTPException 503 (ascii ''Models not loaded'')), [])"
  by (simp add: classify_text_def classify_body_not_ready)

text \<open>C6: while the registry lacks the vectorizer or the label encoder, \<^verbatim>\<open>/classify\<close>
  answers 503, whatever the text is.\<close>

theorem classify_not_ready_503:
  assumes "models ''vectorizer'' = None \<or> models ''label_encoder'' = None"
  shows "status_code (fst (classify_text lower models input_text)) = 503"
  using assms by (simp add: classify_text_not_ready)

theorem classify_not_ready_503_witness:
  "(Map.empty ''vectorizer'' = (None :: pyobj option) \<or> Map.empty ''label_encoder'' = (None :: pyobj option))
   \<and> status_code (fst (classify_text ascii_lower Map.empty (ascii ''hello''))) = 503"
  using classify_not_ready_503 [of Map.empty ascii_lower "ascii ''hello''"] by simp

text \<open>C9: the readiness check comes first: while the registry lacks the vectorizer or the
  label encoder, a request whose text is empty or only whitespace is answered 503 and
  not 400.\<close>

theorem not_ready_blank_503:
  assumes "models ''vectorizer'' = None \<or> models ''label_encoder'' = None"
    and "list_all isspace input_text"
  shows "status_code (fst (classify_text lower models input_text)) = 503
       \<and> status_code (fst (classify_text lower models input_text)) \<noteq> 400"
  using assms(1) by (simp add: classify_text_not_ready)

theorem not_ready_blank_503_witness:
  "list_all isspace [0x20, 0x09]
   \<and> status_code (fst (classify_text ascii_lower [''vectorizer'' \<mapsto> example_vectorizer] [0x20, 0x09])) = 503"
  using not_ready_blank_503 [of "[''vectorizer'' \<mapsto> example_vectorizer]" "[0x20, 0x09]" ascii_lower]
  by (simp add: isspace_def)

text \<open>C5 as stated fails: a text of one space sent to an empty registry is not answered
  400.\<close>

theorem blank_text_400_counterexample:
  "list_all isspace [0x20] \<and> status_code (fst (classify_text ascii_lower Map.empty [0x20])) \<noteq> 400"
  by (simp add: isspace_def classify_text_def classify_body_def)

text \<open>C5, amended: a request whose text is empty or only whitespace never reaches the
  vectorizer, and it is answered 400 when the registry holds the vectorizer and the label
  encoder.\<close>

theorem blank_text_400_when_ready:
  assumes "list_all isspace input_text"
  shows "(\<forall>text. Transform text \<notin> set (snd (classify_text lower models input_text)))
       \<and> (models ''vectorizer'' \<noteq> None \<and> models ''label_encoder'' \<noteq> None \<longrightarrow>
            status_code (fst (classify_text lower models input_text)) = 400)"
  using assms by (auto simp add: classify_text_def classify_body_def strip_blank)

theorem blank_text_400_when_ready_witness:
  "list_all isspace [0x20, 0x0A]
   \<and> snd (classify_text ascii_lower ready_registry [0x20, 0x0A]) = []
   \<and> status_code (fst (classify_text ascii_lower ready_registry [0x20, 0x0A])) = 400"
  using blank_text_400_when_ready [of "[0x20, 0x0A]" ascii_lower ready_registry]
  by (simp add: isspace_def ready_registry_def classify_text_def classify_body_def strip_def)

subsection \<open>The status endpoints\<close>

text \<open>C8: in every state that \<^verbatim>\<open>load_models\<close> can leave the registry in,
  \<^verbatim>\<open>models_loaded\<close> of \<^verbatim>\<open>GET /\<close> and of \<^verbatim>\<open>GET /health\<close> is true exactly when the
  vectorizer and the label encoder are both in the registry.\<close>

theorem models_loaded_iff_ready:
  "models_loaded (root_get (load_models load)) =
     (load_models load ''vectorizer'' \<noteq> None \<and> load_models load ''label_encoder'' \<noteq> None)
   \<and> models_loaded (health_check (load_models load)) =
     (load_models load ''vectorizer'' \<noteq> None \<and> load_models load ''label_encoder'' \<noteq> None)"
  by (simp add: load_models_def root_get_def health_check_def len_dict_def split: sum.splits)

subsection \<open>The per-model attempts\<close>

lemma try_model_fst:
  "fst (try_model models v n name st) = fst st @ contribution models v n name"
  by (cases st) (simp add: try_model_def contribution_def split: option.splits sum.splits pyval.splits)

lemma collect_predictions_fst:
  "fst (collect_predictions models v n) =
     contribution models v n ''muril'' @ contribution models v n ''bilstm'' @
     contribution models v n ''lgb''"
  by (simp add: collect_predictions_def try_model_fst)

lemma contribution_absent: "models name = None \<Longrightarrow> contribution models v n name = []"
  by (simp add: contribution_def try_model_def)

lemma contribution_cases:
  "contribution models v n name = [] \<or>
   (\<exists>model pred. models name = Some model \<and> contribution models v n name = [pred] \<and> length pred = n \<and>
      (get_predictions models model v = Inr (NdArray pred) \<or>
       get_predictions models model v = Inr (ArrayLike pred)))"
  by (auto simp add: contribution_def try_model_def split: option.splits sum.splits pyval.splits)

lemma collect_predictions_length:
  "p \<in> set (fst (collect_predictions models v n)) \<Longrightarrow> length p = n"
  using contribution_cases [of models v n "''muril''"]
        contribution_cases [of models v n "''bilstm''"]
        contribution_cases [of models v n "''lgb''"]
  by (auto simp add: collect_predictions_fst)

lemma uniform_replicate: "uniform n = replicate n (1 / real n)"
  by (simp add: uniform_def)

lemma get_predictions_failing_call:
  assumes "\<not> has_predict_proba model" "\<not> is_ndarray model" "isl (call model v)"
    and "models ''label_encoder'' = Some (LabelEncoder cl)"
  shows "get_predictions models model v = Inr (NdArray (replicate (length cl) (1 / real (length cl))))"
  using assms
  by (auto simp add: get_predictions_def default_uniform_def lookup_def classes_of_def
      uniform_replicate split: sum.splits)

lemmas example_defs = ready_registry_def example_vectorizer_def five_classes_def failing_callable_def
  failing_registry_def raising_predictor_def short_array_def skipping_registry_def

lemmas eval_defs = collect_predictions_fst contribution_def try_model_def get_predictions_def
  has_predict_proba_def is_ndarray_def predict_proba_def call_def raised_def as_value_def
  default_uniform_def lookup_def classes_of_def uniform_def shape0_def

lemma get_predictions_restrict:
  "name \<noteq> ''label_encoder'' \<Longrightarrow>
   get_predictions (models(name := None)) model v = get_predictions models model v"
proof -
  assume "name \<noteq> ''label_encoder''"
  then have "default_uniform (models(name := None)) = default_uniform models"
    by (auto simp add: default_uniform_def lookup_def)
  then show ?thesis by (simp add: get_predictions_def split: sum.splits)
qed

lemma contribution_restrict:
  "name \<noteq> ''label_encoder'' \<Longrightarrow>
   contribution (models(name := None)) v n name' =
     (if name' = name then [] else contribution models v n name')"
  by (simp add: contribution_def try_model_def get_predictions_restrict split: option.splits)

lemma contribution_skipped:
  assumes "models name = Some model"
    and "isl (get_predictions models model v) \<or>
         (\<exists>p. get_predictions models model v = Inr p \<and> shape0 p \<noteq> Some n)"
  shows "contribution models v n name = []"
proof -
  from assms(2) consider
      (raises) e where "get_predictions models model v = Inl e"
    | (mismatch) p where "get_predictions models model v = Inr p" "shape0 p \<noteq> Some n"
    by (auto simp add: isl_def)
  then show ?thesis
  proof cases
    case raises
    then show ?thesis using assms(1) by (simp add: contribution_def try_model_def)
  next
    case mismatch
    then show ?thesis using assms(1)
      by (cases p) (simp_all add: contribution_def try_model_def shape0_def)
  qed
qed

lemma predict_proba_raises:
  "has_predict_proba model \<Longrightarrow> isl (predict_proba model v) \<Longrightarrow> isl (get_predictions models model v)"
  by (simp add: get_predictions_def)

text \<open>C4 as stated fails: a callable that raises is not skipped, its attempt adds the
  uniform vector to \<^verbatim>\<open>all_predictions\<close>.\<close>

theorem failed_call_skipped_counterexample:
  "\<not> has_predict_proba failing_callable \<and> \<not> is_ndarray failing_callable
   \<and> isl (call failing_callable [1])
   \<and> failing_registry ''label_encoder'' = Some (LabelEncoder five_classes)
   \<and> length five_classes = 5
   \<and> fst (try_model failing_registry [1] 5 ''muril'' ([], [])) \<noteq> []
   \<and> fst (collect_predictions failing_registry [1] 5) \<noteq> fst (collect_predictions (failing_registry(''muril'' := None)) [1] 5)"
  by (simp add: example_defs eval_defs)

text \<open>C4, amended: an attempt for which \<^verbatim>\<open>get_predictions\<close> raises (a failing
  \<^verbatim>\<open>predict_proba\<close>), or whose result does not have the length of the known
  categories, adds nothing: the predictions collected are those collected without that
  model.\<close>

theorem skipped_attempt_contributes_nothing:
  assumes "models name = Some model" and "name \<in> set [''muril'', ''bilstm'', ''lgb'']"
    and "(has_predict_proba model \<and> isl (predict_proba model v)) \<or>
         (\<exists>p. get_predictions models model v = Inr p \<and> shape0 p \<noteq> Some n)"
  shows "fst (try_model models v n name (all_predictions, out)) = all_predictions
       \<and> fst (collect_predictions models v n) = fst (collect_predictions (models(name := None)) v n)"
proof -
  have "isl (get_predictions models model v) \<or>
         (\<exists>p. get_predictions models model v = Inr p \<and> shape0 p \<noteq> Some n)"
    using assms(3) predict_proba_raises [of model v models] by blast
  with assms(1) have c: "contribution models v n name = []"
    by (rule contribution_skipped)
  have ne: "name \<noteq> ''label_encoder''" using assms(2) by auto
  show ?thesis using c assms(2)
    by (auto simp add: try_model_fst collect_predictions_fst contribution_restrict [OF ne])
qed

theorem skipped_attempt_contributes_nothing_witness:
  "skipping_registry ''muril'' = Some raising_predictor
   \<and> has_predict_proba raising_predictor \<and> isl (predict_proba raising_predictor [1])
   \<and> fst (collect_predictions skipping_registry [1] 5) = [[1/10, 1/10, 1/10, 1/10, 6/10]]
   \<and> fst (collect_predictions (skipping_registry(''muril'' := None)) [1] 5) = [[1/10, 1/10, 1/10, 1/10, 6/10]]"
  using skipped_attempt_contributes_nothing [of skipping_registry "''muril''" raising_predictor "[1]" 5 "[]" "[]"]
  by (simp add: example_defs eval_defs)

subsection \<open>The ensemble\<close>

lemma classify_body_ready:
  assumes "models ''vectorizer'' = Some (Vectorizer f)" and "f (strip input_text) = Inr v"
    and "strip input_text \<noteq> []" and "models ''label_encoder'' = Some (LabelEncoder cl)"
  shows "fst (classify_body lower models input_text) =
     (if fst (collect_predictions models v (length cl)) = []
      then Inr (decorate (fallback lower (strip input_text)))
      else map_sum id decorate (ensemble cl (fst (collect_predictions models v (length cl)))))"
proof (cases "collect_predictions models v (length cl)")
  case (Pair all_predictions out)
  then show ?thesis using assms
    by (cases "ensemble cl all_predictions")
      (simp_all add: classify_body_def Let_def lookup_def transform_def raised_def predict_def
        classes_of_def)
qed

lemma classify_text_fst:
  "fst (classify_text lower models input_text) =
     (case fst (classify_body lower models input_text) of
        Inl (Error msg) \<Rightarrow> Inl (HTTPException 500 (ascii ''Error: '' @ msg))
      | r \<Rightarrow> r)"
  by (simp add: classify_text_def split: prod.splits sum.splits exn.splits)

lemma map_upds_nth:
  "distinct xs \<Longrightarrow> length xs = length ys \<Longrightarrow> i < length xs \<Longrightarrow>
   (m(xs [\<mapsto>] ys)) (xs ! i) = Some (ys ! i)"
proof (induction xs arbitrary: ys i m)
  case Nil
  then show ?case by simp
next
  case (Cons a as)
  then obtain b bs where ys: "ys = b # bs" by (cases ys) auto
  show ?case
  proof (cases i)
    case 0
    then show ?thesis using Cons.prems ys by simp
  next
    case (Suc k)
    have "((m(a \<mapsto> b))(as [\<mapsto>] bs)) (as ! k) = Some (bs ! k)"
      using Cons.prems ys Suc by (intro Cons.IH) simp_all
    then show ?thesis unfolding ys Suc by (simp only: map_upds_Cons nth_Cons_Suc)
  qed
qed

lemma map_upds_SomeD:
  assumes "(Map.empty(xs [\<mapsto>] ys)) c = Some p" and "distinct xs" and "length xs = length ys"
  shows "\<exists>i<length xs. c = xs ! i \<and> p = ys ! i"
proof -
  have "c \<in> dom (Map.empty(xs [\<mapsto>] ys))" using assms(1) by blast
  then have "c \<in> set xs" using assms(3) by simp
  then obtain i where i: "i < length xs" "c = xs ! i" by (auto simp add: in_set_conv_nth)
  then have "(Map.empty(xs [\<mapsto>] ys)) c = Some (ys ! i)"
    using assms(2,3) by (simp add: map_upds_nth)
  with assms(1) i show ?thesis by auto
qed

lemma map_upds_ran:
  assumes "(Map.empty(xs [\<mapsto>] ys)) c = Some p"
  shows "p \<in> set ys"
proof -
  have "map_of (rev (zip xs ys)) c = Some p" using assms by (simp add: map_upds_def)
  then have "(c, p) \<in> set (zip xs ys)" by (auto dest: map_of_SomeD)
  then show ?thesis by (rule set_zip_rightD)
qed

lemma argmax_from_spec:
  assumes "i \<le> length ys" and "best < i" and "bestv = ys ! best"
    and "\<forall>j<i. ys ! j \<le> bestv" and "\<forall>j<best. ys ! j < bestv"
  shows "argmax_from best bestv i (drop i ys) < length ys
       \<and> (\<forall>j<length ys. ys ! j \<le> ys ! argmax_from best bestv i (drop i ys))
       \<and> (\<forall>j<argmax_from best bestv i (drop i ys). ys ! j < ys ! argmax_from best bestv i (drop i ys))"
  using assms
proof (induction "length ys - i" arbitrary: i best bestv)
  case 0
  then show ?case by simp
next
  case (Suc n)
  then have i: "i < length ys" by simp
  then have d: "drop i ys = ys ! i # drop (Suc i) ys" by (simp add: Cons_nth_drop_Suc)
  show ?case
  proof (cases "ys ! i > bestv")
    case True
    have "\<forall>j<Suc i. ys ! j \<le> ys ! i"
      using Suc.prems(4) True by (auto simp add: less_Suc_eq)
    moreover have "\<forall>j<i. ys ! j < ys ! i"
      using Suc.prems(4) True by force
    ultimately show ?thesis
      using Suc.hyps(1) [of "Suc i" i "ys ! i"] Suc.hyps(2) i True d by simp
  next
    case False
    have "\<forall>j<Suc i. ys ! j \<le> bestv"
      using Suc.prems(4) False by (auto simp add: less_Suc_eq)
    then show ?thesis
      using Suc.hyps(1) [of "Suc i" best bestv] Suc.hyps(2) Suc.prems(2,3,5) i False d by simp
  qed
qed

lemma argmax_spec:
  assumes "xs \<noteq> []"
  shows "\<exists>i. argmax xs = Inr i \<and> i < length xs \<and> (\<forall>j<length xs. xs ! j \<le> xs ! i)
           \<and> (\<forall>j<i. xs ! j < xs ! i)"
proof -
  obtain x rest where xs: "xs = x # rest" using assms by (cases xs) auto
  have "argmax_from 0 x 1 (drop 1 xs) < length xs
       \<and> (\<forall>j<length xs. xs ! j \<le> xs ! argmax_from 0 x 1 (drop 1 xs))
       \<and> (\<forall>j<argmax_from 0 x 1 (drop 1 xs). xs ! j < xs ! argmax_from 0 x 1 (drop 1 xs))"
    by (rule argmax_from_spec) (simp_all add: xs)
  then show ?thesis by (simp add: argmax_def xs)
qed

lemma mean_axis0_Inr:
  assumes "rows \<noteq> []" and "\<forall>p\<in>set rows. length p = n"
  shows "mean_axis0 rows =
     Inr (map (\<lambda>i. sum_list (map (\<lambda>q. q ! i) rows) / real (length rows)) [0..<n])"
  using assms by (cases rows) (auto simp add: mean_axis0_def list_all_iff)

lemma sum_list_unit_bounds:
  "\<forall>x\<in>set xs. 0 \<le> g x \<and> g x \<le> (1::real) \<Longrightarrow>
   0 \<le> sum_list (map g xs) \<and> sum_list (map g xs) \<le> real (length xs)"
  by (induction xs) auto

lemma mean_unit_bounds:
  assumes "rows \<noteq> []" and "\<forall>row\<in>set rows. 0 \<le> row ! i \<and> row ! i \<le> (1::real)"
  shows "0 \<le> sum_list (map (\<lambda>q. q ! i) rows) / real (length rows)
       \<and> sum_list (map (\<lambda>q. q ! i) rows) / real (length rows) \<le> 1"
proof -
  have "0 \<le> sum_list (map (\<lambda>q. q ! i) rows) \<and> sum_list (map (\<lambda>q. q ! i) rows) \<le> real (length rows)"
    using assms(2) by (intro sum_list_unit_bounds) simp
  moreover have "0 < real (length rows)" using assms(1) by simp
  ultimately show ?thesis by (simp add: divide_le_eq)
qed

lemma ensemble_spec:
  assumes "rows \<noteq> []" and "\<forall>p\<in>set rows. length p = length cl" and "cl \<noteq> []"
  shows "\<exists>e i. mean_axis0 rows = Inr e \<and> length e = length cl \<and> i < length cl
           \<and> (\<forall>j<length cl. e ! j \<le> e ! i) \<and> (\<forall>j<i. e ! j < e ! i)
           \<and> ensemble cl rows = Inr (cl ! i, e ! i, Map.empty(cl [\<mapsto>] e))"
proof -
  define e where "e = map (\<lambda>i. sum_list (map (\<lambda>q. q ! i) rows) / real (length rows)) [0..<length cl]"
  have m: "mean_axis0 rows = Inr e"
    unfolding e_def using assms(1,2) by (rule mean_axis0_Inr)
  have len: "length e = length cl" by (simp add: e_def)
  then have "e \<noteq> []" using assms(3) by auto
  then obtain i where i: "argmax e = Inr i" "i < length e" "\<forall>j<length e. e ! j \<le> e ! i"
      "\<forall>j<i. e ! j < e ! i"
    using argmax_spec [of e] by blast
  have "ensemble cl rows = Inr (cl ! i, e ! i, Map.empty(cl [\<mapsto>] e))"
    using m i(1,2) len by (simp add: ensemble_def inverse_transform_def)
  with m len i show ?thesis by auto
qed

lemma ensemble_no_classes:
  assumes "rows \<noteq> []" and "\<forall>p\<in>set rows. length p = length cl" and "cl = []"
  shows "ensemble cl rows = Inl (Error (ascii ''ValueError''))"
proof -
  have "mean_axis0 rows = Inr []"
    using mean_axis0_Inr [OF assms(1), of 0] assms(2,3) by simp
  then show ?thesis by (simp add: ensemble_def argmax_def)
qed

subsection \<open>The keyword fallback\<close>

lemma startswith_prefix: "startswith t w \<longleftrightarrow> prefix w t"
  by (induction t w rule: startswith.induct) auto

lemma contains_sublist: "contains w t \<longleftrightarrow> sublist w t"
  by (induction t) (simp_all add: sublist_Cons_right startswith_prefix)

lemma any_in_sublist: "any_in ws t \<longleftrightarrow> (\<exists>w\<in>set ws. sublist w t)"
  by (simp add: any_in_def list_ex_iff contains_sublist)

subsection \<open>Successful responses\<close>

lemmas handler_defs = classify_text_def classify_body_def predict_def transform_def lookup_def
  classes_of_def raised_def strip_def isspace_def ensemble_def mean_axis0_def argmax_def
  inverse_transform_def decorate_def category_info_def CATEGORIES_def fallback_def keyword_match_def
  any_in_def sports_words_def entertainment_words_def business_words_def editorial_words_def upt_rec
  collect_predictions_def Let_def

lemma classify_ok_nonblank:
  assumes "models ''vectorizer'' = Some (Vectorizer f)"
    and "models ''label_encoder'' = Some (LabelEncoder cl)"
    and "fst (classify_text lower models input_text) = Inr r"
  shows "strip input_text \<noteq> []"
proof
  assume "strip input_text = []"
  then have "fst (classify_body lower models input_text) = Inl (HTTPException 400 (ascii ''Text cannot be empty''))"
    using assms(1,2) by (simp add: classify_body_def)
  then show False using assms(3) by (simp add: classify_text_fst)
qed

lemma classify_ok_cases:
  assumes "models ''vectorizer'' = Some (Vectorizer f)" and "f (strip input_text) = Inr v"
    and "models ''label_encoder'' = Some (LabelEncoder cl)"
    and "fst (classify_text lower models input_text) = Inr r"
  obtains
    (fallback) "fst (collect_predictions models v (length cl)) = []"
      "r = decorate (fallback lower (strip input_text))"
  | (ensemble) e i where "fst (collect_predictions models v (length cl)) \<noteq> []"
      "mean_axis0 (fst (collect_predictions models v (length cl))) = Inr e"
      "length e = length cl" "i < length cl" "\<forall>j<length cl. e ! j \<le> e ! i" "\<forall>j<i. e ! j < e ! i"
      "r = decorate (cl ! i, e ! i, Map.empty(cl [\<mapsto>] e))"
proof -
  let ?rows = "fst (collect_predictions models v (length cl))"
  have nb: "strip input_text \<noteq> []"
    using assms(1,3,4) by (rule classify_ok_nonblank)
  note body = classify_body_ready [OF assms(1,2) nb assms(3), of lower]
  show thesis
  proof (cases "?rows = []")
    case True
    then have "r = decorate (fallback lower (strip input_text))"
      using body assms(4) by (simp add: classify_text_fst)
    with True show thesis by (rule fallback)
  next
    case False
    have len: "\<forall>p\<in>set ?rows. length p = length cl"
      by (simp add: collect_predictions_length)
    have "cl \<noteq> []"
    proof
      assume "cl = []"
      with False len have "ensemble cl ?rows = Inl (Error (ascii ''ValueError''))"
        by (intro ensemble_no_classes)
      then show False using body False assms(4) by (simp add: classify_text_fst)
    qed
    with False len obtain e i where ei: "mean_axis0 ?rows = Inr e" "length e = length cl" "i < length cl"
        "\<forall>j<length cl. e ! j \<le> e ! i" "\<forall>j<i. e ! j < e ! i"
        "ensemble cl ?rows = Inr (cl ! i, e ! i, Map.empty(cl [\<mapsto>] e))"
      using ensemble_spec [of ?rows cl] by blast
    then have "r = decorate (cl ! i, e ! i, Map.empty(cl [\<mapsto>] e))"
      using body False assms(4) by (simp add: classify_text_fst)
    with False ei show thesis by (intro ensemble)
  qed
qed

lemma keyword_match_range:
  "keyword_match t \<in> {(ascii ''sports'', 0.85), (ascii ''entertainment'', 0.80),
      (ascii ''business'', 0.75), (ascii ''editorial'', 0.70), (ascii ''nation'', 0.65)}"
  by (simp add: keyword_match_def)

lemma keys_CATEGORIES: "map fst CATEGORIES = five_classes"
  by (simp add: CATEGORIES_def five_classes_def)

lemma residual_probs:
  "map_of (map (\<lambda>cat. (cat, p)) (map fst CATEGORIES)) =
     (\<lambda>c. if c \<in> set five_classes then Some p else None)"
  by (rule ext) (simp add: CATEGORIES_def five_classes_def)

lemma fallback_probs:
  assumes "fallback lower t = (category, conf, probs)"
  shows "(category, conf) = keyword_match (lower t)
       \<and> probs = (\<lambda>c. if c = category then Some conf
                       else if c \<in> set five_classes then Some 0.05 else None)"
proof -
  obtain k q where kq: "keyword_match (lower t) = (k, q)" by (cases "keyword_match (lower t)")
  with assms have "category = k" "conf = q"
    and "probs = (map_of (map (\<lambda>cat. (cat, 0.05)) (map fst CATEGORIES)))(k \<mapsto> q)"
    by (auto simp add: fallback_def)
  then show ?thesis unfolding residual_probs using kq by (simp add: fun_eq_iff)
qed

lemma keyword_match_conf:
  "keyword_match t = (k, q) \<Longrightarrow> k \<in> set five_classes \<and> 0.05 < q \<and> q \<le> 1"
  using keyword_match_range [of t] by (auto simp add: five_classes_def)

text \<open>C1 as stated fails in the ensemble path: when the only model is a callable that
  raises, the averaged vector is uniform and every category has the probability that is
  returned as confidence.\<close>

theorem unique_maximum_counterexample:
  "fst (classify_text ascii_lower failing_registry [0x68, 0x69]) = Inr uniform_result
   \<and> all_probabilities uniform_result (ascii ''business'') = Some (confidence uniform_result)
   \<and> all_probabilities uniform_result (ascii ''sports'') = Some (confidence uniform_result)
   \<and> ascii ''business'' \<noteq> ascii ''sports''"
  by (simp add: uniform_result_def example_defs eval_defs handler_defs)

text \<open>C1, amended: in a 200 response (the classes of the label encoder being distinct) the
  confidence is the largest entry of \<^verbatim>\<open>all_probabilities\<close> and the returned category has
  it. In the fallback path no other category has it; in the ensemble path the returned
  category is the first class, in the label encoder's order, that has it.\<close>

theorem confidence_is_maximum:
  assumes "models ''vectorizer'' = Some (Vectorizer f)" and "f (strip input_text) = Inr v"
    and "models ''label_encoder'' = Some (LabelEncoder cl)" and "distinct cl"
    and "fst (classify_text lower models input_text) = Inr r"
  shows "(\<exists>c. all_probabilities r c = Some (confidence r)
            \<and> category_english r = english (category_info c)
            \<and> category_telugu r = telugu (category_info c)
            \<and> (fst (collect_predictions models v (length cl)) \<noteq> [] \<longrightarrow>
                 (\<exists>i<length cl. c = cl ! i \<and>
                    (\<forall>j<i. \<exists>p. all_probabilities r (cl ! j) = Some p \<and> p < confidence r))))
       \<and> (\<forall>c p. all_probabilities r c = Some p \<longrightarrow> p \<le> confidence r)
       \<and> (fst (collect_predictions models v (length cl)) = [] \<longrightarrow>
            (\<exists>!c. all_probabilities r c = Some (confidence r)))"
  using assms(1,2,3,5)
proof (cases rule: classify_ok_cases)
  case fallback
  obtain k q probs where fb: "fallback lower (strip input_text) = (k, q, probs)"
    by (cases "fallback lower (strip input_text)")
  then have km: "keyword_match (lower (strip input_text)) = (k, q)"
    and probs: "probs = (\<lambda>c. if c = k then Some q else if c \<in> set five_classes then Some 0.05 else None)"
    using fallback_probs [OF fb] by simp_all
  have q: "0.05 < q" using keyword_match_conf [OF km] by simp
  have r: "all_probabilities r = probs" "confidence r = q"
      "category_english r = english (category_info k)" "category_telugu r = telugu (category_info k)"
    using fallback(2) fb by (simp_all add: decorate_def)
  have "\<exists>!c. probs c = Some q"
  proof
    show "probs k = Some q" by (simp add: probs)
  next
    fix c assume "probs c = Some q"
    then show "c = k" using q by (simp add: probs split: if_splits)
  qed
  moreover have "\<forall>c p. probs c = Some p \<longrightarrow> p \<le> q"
    using q by (auto simp add: probs split: if_splits)
  moreover have "probs k = Some q" by (simp add: probs)
  ultimately show ?thesis using r fallback(1) by auto
next
  case (ensemble e i)
  let ?probs = "Map.empty(cl [\<mapsto>] e)"
  have len: "length cl = length e" using ensemble(3) by simp
  have r: "all_probabilities r = ?probs" "confidence r = e ! i"
      "category_english r = english (category_info (cl ! i))"
      "category_telugu r = telugu (category_info (cl ! i))"
    using ensemble(7) by (simp_all add: decorate_def)
  have at: "?probs (cl ! j) = Some (e ! j)" if "j < length cl" for j
    using assms(4) len that by (rule map_upds_nth)
  have upper: "\<forall>c p. ?probs c = Some p \<longrightarrow> p \<le> e ! i"
  proof (intro allI impI)
    fix c p assume "?probs c = Some p"
    then obtain j where "j < length cl" "p = e ! j"
      using map_upds_SomeD [OF _ assms(4) len] by blast
    then show "p \<le> e ! i" using ensemble(5) by simp
  qed
  have first: "\<forall>j<i. \<exists>p. ?probs (cl ! j) = Some p \<and> p < e ! i"
    using at ensemble(4,6) by simp
  show ?thesis
    unfolding r using at [OF ensemble(4)] upper first ensemble(1,4) by blast
qed

theorem confidence_is_maximum_witness:
  "two_model_registry ''vectorizer'' = Some example_vectorizer
   \<and> two_model_registry ''label_encoder'' = Some (LabelEncoder five_classes)
   \<and> distinct five_classes
   \<and> fst (classify_text ascii_lower two_model_registry [0x68, 0x69]) = Inr two_model_result
   \<and> all_probabilities two_model_result (ascii ''sports'') = Some (confidence two_model_result)"
  using confidence_is_maximum [of two_model_registry "\<lambda>text. Inr [real (length text)]" "[0x68, 0x69]" "[2]"
      five_classes ascii_lower two_model_result]
  by (simp add: two_model_registry_def two_model_result_def example_defs eval_defs handler_defs)

text \<open>C2 as stated fails in the ensemble path: with a label encoder of two classes and an
  array model holding \<open>3\<close> and \<open>-1\<close>, the 200 response has the keys of the encoder and
  these values.\<close>

theorem probabilities_keys_and_range_counterexample:
  "fst (classify_text ascii_lower unchecked_registry [0x68, 0x69]) = Inr unchecked_result
   \<and> status_code (fst (classify_text ascii_lower unchecked_registry [0x68, 0x69])) = 200
   \<and> all_probabilities unchecked_result (ascii ''business'') = None
   \<and> all_probabilities unchecked_result (ascii ''politics'') = Some 3
   \<and> all_probabilities unchecked_result (ascii ''sports'') = Some (- 1)"
  by (simp add: unchecked_registry_def unchecked_result_def example_defs eval_defs handler_defs)

text \<open>C2, amended: in a 200 response of the fallback path the keys of
  \<^verbatim>\<open>all_probabilities\<close> are the five configured categories and every value is in
  \<open>[0, 1]\<close>; in the ensemble path the keys are the classes of the label encoder, and
  every value is in \<open>[0, 1]\<close> when every entry of every averaged vector is.\<close>

theorem probabilities_keys_and_range:
  assumes "models ''vectorizer'' = Some (Vectorizer f)" and "f (strip input_text) = Inr v"
    and "models ''label_encoder'' = Some (LabelEncoder cl)"
    and "fst (classify_text lower models input_text) = Inr r"
  shows "(fst (collect_predictions models v (length cl)) = [] \<longrightarrow>
            dom (all_probabilities r) = set five_classes
            \<and> (\<forall>c p. all_probabilities r c = Some p \<longrightarrow> 0 \<le> p \<and> p \<le> 1))
       \<and> (fst (collect_predictions models v (length cl)) \<noteq> [] \<longrightarrow>
            dom (all_probabilities r) = set cl
            \<and> ((\<forall>row\<in>set (fst (collect_predictions models v (length cl))). \<forall>x\<in>set row. 0 \<le> x \<and> x \<le> 1)
                 \<longrightarrow> (\<forall>c p. all_probabilities r c = Some p \<longrightarrow> 0 \<le> p \<and> p \<le> 1)))"
  using assms
proof (cases rule: classify_ok_cases)
  case fallback
  obtain k q probs where fb: "fallback lower (strip input_text) = (k, q, probs)"
    by (cases "fallback lower (strip input_text)")
  then have km: "keyword_match (lower (strip input_text)) = (k, q)"
    and probs: "probs = (\<lambda>c. if c = k then Some q else if c \<in> set five_classes then Some 0.05 else None)"
    using fallback_probs [OF fb] by simp_all
  note q = keyword_match_conf [OF km]
  have r: "all_probabilities r = probs"
    using fallback(2) fb by (simp add: decorate_def)
  have "dom probs = set five_classes"
  proof (rule set_eqI)
    fix c show "c \<in> dom probs \<longleftrightarrow> c \<in> set five_classes"
      using q by (cases "c = k"; cases "c \<in> set five_classes") (simp_all add: probs domIff)
  qed
  moreover have "\<forall>c p. probs c = Some p \<longrightarrow> 0 \<le> p \<and> p \<le> 1"
    using q by (auto simp add: probs split: if_splits)
  ultimately show ?thesis using r fallback(1) by simp
next
  case (ensemble e i)
  let ?rows = "fst (collect_predictions models v (length cl))"
  let ?probs = "Map.empty(cl [\<mapsto>] e)"
  have r: "all_probabilities r = ?probs"
    using ensemble(7) by (simp add: decorate_def)
  have d: "dom ?probs = set cl" using ensemble(3) by simp
  have len: "\<forall>p\<in>set ?rows. length p = length cl"
    by (simp add: collect_predictions_length)
  then have e: "e = map (\<lambda>i. sum_list (map (\<lambda>q. q ! i) ?rows) / real (length ?rows)) [0..<length cl]"
    using mean_axis0_Inr [OF ensemble(1)] ensemble(2) by simp
  have range: "\<forall>c p. ?probs c = Some p \<longrightarrow> 0 \<le> p \<and> p \<le> 1"
    if unit: "\<forall>row\<in>set ?rows. \<forall>x\<in>set row. 0 \<le> x \<and> x \<le> 1"
  proof (intro allI impI)
    fix c p assume "?probs c = Some p"
    then have "p \<in> set e" by (rule map_upds_ran)
    then obtain j where j: "j < length cl" "p = sum_list (map (\<lambda>q. q ! j) ?rows) / real (length ?rows)"
      by (auto simp add: e)
    have "\<forall>row\<in>set ?rows. 0 \<le> row ! j \<and> row ! j \<le> 1"
      using unit len j(1) by (metis nth_mem)
    with ensemble(1) show "0 \<le> p \<and> p \<le> 1"
      unfolding j(2) by (rule mean_unit_bounds)
  qed
  show ?thesis unfolding r using d range ensemble(1) by blast
qed

theorem probabilities_keys_and_range_witness:
  "two_model_registry ''vectorizer'' = Some example_vectorizer
   \<and> two_model_registry ''label_encoder'' = Some (LabelEncoder five_classes)
   \<and> fst (classify_text ascii_lower two_model_registry [0x68, 0x69]) = Inr two_model_result
   \<and> fst (collect_predictions two_model_registry [2] 5) \<noteq> []
   \<and> all_probabilities two_model_result (ascii ''nation'') = Some 0.1875"
  using probabilities_keys_and_range [of two_model_registry "\<lambda>text. Inr [real (length text)]" "[0x68, 0x69]" "[2]"
      five_classes ascii_lower two_model_result]
  by (simp add: two_model_registry_def two_model_result_def example_defs eval_defs handler_defs)

subsection \<open>The uniform default in the ensemble\<close>

lemma mean_axis0_single: "mean_axis0 [u] = Inr u"
  by (simp add: mean_axis0_def map_nth)

lemma mean_entry_positive:
  assumes "u \<in> set rows" and "0 < u ! i"
    and "\<forall>q\<in>set rows. 0 \<le> q ! i"
  shows "0 < sum_list (map (\<lambda>q. q ! i) rows) / real (length rows)"
proof -
  have "sum_list (map (\<lambda>q. q ! i) rows) = u ! i + sum_list (map (\<lambda>q. q ! i) (remove1 u rows))"
    using assms(1) by (rule sum_list_map_remove1)
  moreover have "0 \<le> sum_list (map (\<lambda>q. q ! i) (remove1 u rows))"
    using assms(3) by (intro sum_list_nonneg) (auto dest: notin_set_remove1)
  moreover have "0 < real (length rows)" using assms(1) by (cases rows) auto
  ultimately show ?thesis using assms(2) by simp
qed

text \<open>C10: a model without \<^verbatim>\<open>predict_proba\<close> that is not an array and whose call
  raises makes \<^verbatim>\<open>get_predictions\<close> return the uniform vector, of the length of the label
  encoder's classes and with every entry \<open>1 / num_classes\<close>; the loop appends it to
  \<^verbatim>\<open>all_predictions\<close>. It is then among the rows that \<^verbatim>\<open>np.mean\<close> averages: the
  average exists and has the length of the classes, it is the uniform vector itself when
  that is the only row, each of its entries is positive when no collected entry is
  negative, and the response of \<^verbatim>\<open>/classify\<close> is built from this average and its
  arg-max (the ensemble branch, not the keyword fallback).\<close>

theorem failing_call_uniform_included:
  assumes "\<not> has_predict_proba model" and "\<not> is_ndarray model" and "isl (call model v)"
    and "models ''label_encoder'' = Some (LabelEncoder cl)"
    and "models name = Some model" and "name \<in> set [''muril'', ''bilstm'', ''lgb'']"
  shows "get_predictions models model v = Inr (NdArray (replicate (length cl) (1 / real (length cl))))
       \<and> fst (try_model models v (length cl) name (all_predictions, out)) =
           all_predictions @ [replicate (length cl) (1 / real (length cl))]
       \<and> replicate (length cl) (1 / real (length cl)) \<in> set (fst (collect_predictions models v (length cl)))
       \<and> (\<exists>e. mean_axis0 (fst (collect_predictions models v (length cl))) = Inr e
              \<and> length e = length cl
              \<and> (fst (collect_predictions models v (length cl)) = [replicate (length cl) (1 / real (length cl))]
                    \<longrightarrow> e = replicate (length cl) (1 / real (length cl)))
              \<and> ((\<forall>q\<in>set (fst (collect_predictions models v (length cl))). \<forall>x\<in>set q. 0 \<le> x)
                    \<longrightarrow> (\<forall>x\<in>set e. 0 < x))
              \<and> (models ''vectorizer'' = Some (Vectorizer f) \<and> f (strip input_text) = Inr v \<and>
                  strip input_text \<noteq> [] \<and> cl \<noteq> [] \<longrightarrow>
                    (\<exists>i<length cl. argmax e = Inr i \<and>
                       fst (classify_text lower models input_text) =
                         Inr (decorate (cl ! i, e ! i, Map.empty(cl [\<mapsto>] e))))))"
proof -
  let ?n = "length cl"
  let ?u = "replicate ?n (1 / real ?n)"
  let ?rows = "fst (collect_predictions models v ?n)"
  let ?e = "map (\<lambda>i. sum_list (map (\<lambda>q. q ! i) ?rows) / real (length ?rows)) [0..<?n]"
  have g: "get_predictions models model v = Inr (NdArray ?u)"
    using assms(1-4) by (rule get_predictions_failing_call)
  have c: "contribution models v ?n name = [?u]"
    using g assms(5) by (simp add: contribution_def try_model_def)
  have mem: "?u \<in> set ?rows"
    using c assms(6) by (auto simp add: collect_predictions_fst)
  then have ne: "?rows \<noteq> []" by auto
  have len: "\<forall>p\<in>set ?rows. length p = ?n"
    by (simp add: collect_predictions_length)
  have m: "mean_axis0 ?rows = Inr ?e"
    using ne len by (rule mean_axis0_Inr)
  have single: "?e = ?u" if "?rows = [?u]"
    using m mean_axis0_single [of ?u] that by simp
  have pos: "\<forall>x\<in>set ?e. 0 < x" if nonneg: "\<forall>q\<in>set ?rows. \<forall>x\<in>set q. 0 \<le> x"
  proof
    fix x assume "x \<in> set ?e"
    then obtain i where i: "i < ?n" "x = sum_list (map (\<lambda>q. q ! i) ?rows) / real (length ?rows)"
      by auto
    have "\<forall>q\<in>set ?rows. 0 \<le> q ! i"
      using nonneg len i(1) by (metis nth_mem)
    moreover have "0 < ?u ! i" using i(1) by auto
    ultimately show "0 < x" unfolding i(2) using mem by (intro mean_entry_positive [of ?u])
  qed
  have resp: "\<exists>i<?n. argmax ?e = Inr i \<and>
      fst (classify_text lower models input_text) = Inr (decorate (cl ! i, ?e ! i, Map.empty(cl [\<mapsto>] ?e)))"
    if ready: "models ''vectorizer'' = Some (Vectorizer f)" "f (strip input_text) = Inr v"
      "strip input_text \<noteq> []" and cl: "cl \<noteq> []"
  proof -
    have "?e \<noteq> []" using cl by simp
    then obtain i where i: "argmax ?e = Inr i" "i < length ?e"
      using argmax_spec [of ?e] by blast
    then have "ensemble cl ?rows = Inr (cl ! i, ?e ! i, Map.empty(cl [\<mapsto>] ?e))"
      using m by (simp add: ensemble_def inverse_transform_def)
    then have "fst (classify_text lower models input_text) =
        Inr (decorate (cl ! i, ?e ! i, Map.empty(cl [\<mapsto>] ?e)))"
      using classify_body_ready [OF ready assms(4), of lower] ne by (simp add: classify_text_fst)
    with i show ?thesis by auto
  qed
  have "length ?e = ?n" by simp
  with m single pos resp
  have "\<exists>e. mean_axis0 ?rows = Inr e \<and> length e = ?n
          \<and> (?rows = [?u] \<longrightarrow> e = ?u)
          \<and> ((\<forall>q\<in>set ?rows. \<forall>x\<in>set q. 0 \<le> x) \<longrightarrow> (\<forall>x\<in>set e. 0 < x))
          \<and> (models ''vectorizer'' = Some (Vectorizer f) \<and> f (strip input_text) = Inr v \<and>
              strip input_text \<noteq> [] \<and> cl \<noteq> [] \<longrightarrow>
                (\<exists>i<?n. argmax e = Inr i \<and>
                   fst (classify_text lower models input_text) =
                     Inr (decorate (cl ! i, e ! i, Map.empty(cl [\<mapsto>] e)))))"
    by (intro exI [of _ ?e]) blast
  with g c mem show ?thesis by (simp add: try_model_fst)
qed

theorem failing_call_uniform_included_witness:
  "\<not> has_predict_proba failing_callable \<and> \<not> is_ndarray failing_callable
   \<and> isl (call failing_callable [2])
   \<and> mixed_registry ''label_encoder'' = Some (LabelEncoder four_classes)
   \<and> mixed_registry ''lgb'' = Some failing_callable
   \<and> fst (collect_predictions mixed_registry [2] 4) = [[0.5, 0.25, 0.25, 0], [0.25, 0.25, 0.25, 0.25]]
   \<and> mean_axis0 (fst (collect_predictions mixed_registry [2] 4)) = Inr [0.375, 0.25, 0.25, 0.125]
   \<and> fst (classify_text ascii_lower mixed_registry [0x68, 0x69]) = Inr mixed_result"
  using failing_call_uniform_included [of failing_callable "[2]" mixed_registry four_classes "''lgb''"
      "[]" "[]" "\<lambda>text. Inr [real (length text)]" "[0x68, 0x69]" ascii_lower]
  by (simp add: mixed_registry_def mixed_result_def four_classes_def example_defs eval_defs handler_defs)

subsection \<open>The fallback path\<close>

lemma fallback_response:
  assumes "models ''vectorizer'' = Some (Vectorizer f)" and "f (strip input_text) = Inr v"
    and "strip input_text \<noteq> []"
    and "models ''label_encoder'' = Some (LabelEncoder cl)"
    and "fst (collect_predictions models v (length cl)) = []"
  shows "fst (classify_text lower models input_text) = Inr (decorate (fallback lower (strip input_text)))"
  using classify_body_ready [OF assms(1-4), of lower] assms(5) by (simp add: classify_text_fst)

text \<open>C3: when no per-model attempt has added a vector, the response is that of the keyword
  fallback: the first of the sports, entertainment, business and editorial keyword lists
  that has a word occurring in the lower-cased text decides the category, with confidence
  0.85, 0.80, 0.75 and 0.70, and nation with 0.65 when none has; every other one of the five
  categories gets 0.05. The response depends on the text only: any registry in which no
  attempt adds a vector gives the same response for the same text.\<close>

theorem fallback_when_no_prediction:
  assumes "models ''vectorizer'' = Some (Vectorizer f)" and "f (strip input_text) = Inr v"
    and "strip input_text \<noteq> []"
    and "models ''label_encoder'' = Some (LabelEncoder cl)"
    and "fst (collect_predictions models v (length cl)) = []"
  shows "\<exists>category conf.
      fst (classify_text lower models input_text) =
        Inr \<lparr>category_english = english (category_info category),
             category_telugu = telugu (category_info category),
             confidence = conf,
             all_probabilities =
               (\<lambda>c. if c = category then Some conf
                    else if c \<in> set five_classes then Some 0.05 else None)\<rparr>
    \<and> (category, conf) =
        (if \<exists>w\<in>set sports_words. sublist w (lower (strip input_text)) then (ascii ''sports'', 0.85)
         else if \<exists>w\<in>set entertainment_words. sublist w (lower (strip input_text))
           then (ascii ''entertainment'', 0.80)
         else if \<exists>w\<in>set business_words. sublist w (lower (strip input_text))
           then (ascii ''business'', 0.75)
         else if \<exists>w\<in>set editorial_words. sublist w (lower (strip input_text))
           then (ascii ''editorial'', 0.70)
         else (ascii ''nation'', 0.65))
    \<and> (\<forall>models' f' v' cl'.
          models' ''vectorizer'' = Some (Vectorizer f') \<and> f' (strip input_text) = Inr v' \<and>
          models' ''label_encoder'' = Some (LabelEncoder cl') \<and>
          fst (collect_predictions models' v' (length cl')) = [] \<longrightarrow>
          fst (classify_text lower models' input_text) = fst (classify_text lower models input_text))"
proof -
  obtain k q probs where fb: "fallback lower (strip input_text) = (k, q, probs)"
    by (cases "fallback lower (strip input_text)")
  then have km: "(k, q) = keyword_match (lower (strip input_text))"
    and probs: "probs = (\<lambda>c. if c = k then Some q else if c \<in> set five_classes then Some 0.05 else None)"
    using fallback_probs [OF fb] by simp_all
  have res: "fst (classify_text lower models input_text) = Inr (decorate (k, q, probs))"
    using fallback_response [OF assms, of lower] fb by simp
  have same: "fst (classify_text lower models' input_text) = fst (classify_text lower models input_text)"
    if "models' ''vectorizer'' = Some (Vectorizer f')" "f' (strip input_text) = Inr v'"
      "models' ''label_encoder'' = Some (LabelEncoder cl')"
      "fst (collect_predictions models' v' (length cl')) = []" for models' f' v' cl'
    using fallback_response [OF that(1,2) assms(3) that(3,4), of lower] res fb by simp
  have "fst (classify_text lower models input_text) =
        Inr \<lparr>category_english = english (category_info k),
             category_telugu = telugu (category_info k),
             confidence = q,
             all_probabilities =
               (\<lambda>c. if c = k then Some q else if c \<in> set five_classes then Some 0.05 else None)\<rparr>"
    using res by (simp add: decorate_def probs)
  moreover have "(k, q) =
        (if \<exists>w\<in>set sports_words. sublist w (lower (strip input_text)) then (ascii ''sports'', 0.85)
         else if \<exists>w\<in>set entertainment_words. sublist w (lower (strip input_text))
           then (ascii ''entertainment'', 0.80)
         else if \<exists>w\<in>set business_words. sublist w (lower (strip input_text))
           then (ascii ''business'', 0.75)
         else if \<exists>w\<in>set editorial_words. sublist w (lower (strip input_text))
           then (ascii ''editorial'', 0.70)
         else (ascii ''nation'', 0.65))"
    unfolding km keyword_match_def any_in_sublist by (rule refl)
  ultimately show ?thesis using same by blast
qed

theorem fallback_when_no_prediction_witness:
  "ready_registry ''vectorizer'' = Some example_vectorizer
   \<and> strip [0x20, 0xC38, 0xC3F, 0xC28, 0xC3F, 0xC2E, 0xC3E, 0x20, 0xC06, 0xC21, 0x0A] =
       [0xC38, 0xC3F, 0xC28, 0xC3F, 0xC2E, 0xC3E, 0x20, 0xC06, 0xC21]
   \<and> ready_registry ''label_encoder'' = Some (LabelEncoder five_classes)
   \<and> fst (collect_predictions ready_registry [9] (length five_classes)) = []
   \<and> fst (classify_text ascii_lower ready_registry
          [0x20, 0xC38, 0xC3F, 0xC28, 0xC3F, 0xC2E, 0xC3E, 0x20, 0xC06, 0xC21, 0x0A]) = Inr sports_result"
  using fallback_when_no_prediction [of ready_registry "\<lambda>text. Inr [real (length text)]"
      "[0x20, 0xC38, 0xC3F, 0xC28, 0xC3F, 0xC2E, 0xC3E, 0x20, 0xC06, 0xC21, 0x0A]" "[9]" five_classes ascii_lower]
  by (simp add: sports_result_def ascii_lower_def example_defs eval_defs handler_defs fun_eq_iff)

end
